theory Spec2Isabelle
  imports Complex_Main "HOL-Library.Sublist"
begin

section \<open>Text\<close>

text \<open>
  A Python \<open>str\<close> is a sequence of Unicode code points, so a text is a list of code
  points and \<open>length\<close> counts what \<open>len\<close> counts. \<open>lit\<close> turns an ASCII literal into
  such a text. The character classes below are those of CPython 3 on the code points
  U+0000 to U+00FF; a code point beyond U+00FF is taken to be a caseless symbol (neither
  letter, digit nor white space), which is what the dash, the bullet and the typographic
  apostrophe of the repository's own messages and test prompts are.
\<close>

type_synonym str = "nat list"

definition lit :: "string \<Rightarrow> str" where
  "lit cs = map of_char cs"

definition is_decimal :: "nat \<Rightarrow> bool" where
  \<comment> \<open>\<open>str.isdecimal\<close>, the regular expression class \<open>\d\<close>, and the digits \<open>int()\<close> reads\<close>
  "is_decimal c = (48 \<le> c \<and> c \<le> 57)"

definition isdigit :: "nat \<Rightarrow> bool" where
  \<comment> \<open>\<open>str.isdigit\<close>: the decimal digits and the superscripts U+00B2, U+00B3, U+00B9\<close>
  "isdigit c = (is_decimal c \<or> c = 178 \<or> c = 179 \<or> c = 185)"

definition is_ascii_letter :: "nat \<Rightarrow> bool" where
  \<comment> \<open>the class \<open>[A-Z]\<close> under \<open>re.IGNORECASE\<close>\<close>
  "is_ascii_letter c = ((65 \<le> c \<and> c \<le> 90) \<or> (97 \<le> c \<and> c \<le> 122))"

definition is_word :: "nat \<Rightarrow> bool" where
  \<comment> \<open>the class \<open>\w\<close>: \<open>str.isalnum\<close> or the underscore\<close>
  "is_word c =
     (is_decimal c \<or> is_ascii_letter c \<or> c = 95 \<or> c = 170 \<or> c = 178 \<or> c = 179 \<or>
      c = 181 \<or> c = 185 \<or> c = 186 \<or> (188 \<le> c \<and> c \<le> 190) \<or> (192 \<le> c \<and> c \<le> 214) \<or>
      (216 \<le> c \<and> c \<le> 246) \<or> (248 \<le> c \<and> c \<le> 255))"

definition is_space :: "nat \<Rightarrow> bool" where
  \<comment> \<open>the class \<open>\s\<close>\<close>
  "is_space c = ((9 \<le> c \<and> c \<le> 13) \<or> (28 \<le> c \<and> c \<le> 32) \<or> c = 133 \<or> c = 160)"

definition lower_char :: "nat \<Rightarrow> nat" where
  "lower_char c =
     (if (65 \<le> c \<and> c \<le> 90) \<or> (192 \<le> c \<and> c \<le> 214) \<or> (216 \<le> c \<and> c \<le> 222)
      then c + 32 else c)"

definition lower :: "str \<Rightarrow> str" where
  \<comment> \<open>\<open>str.lower\<close>\<close>
  "lower t = map lower_char t"

fun starts_with :: "str \<Rightarrow> str \<Rightarrow> bool" where
  \<comment> \<open>\<open>starts_with p t\<close>: the text \<open>t\<close> begins with \<open>p\<close>\<close>
  "starts_with [] t = True"
| "starts_with (c # p) [] = False"
| "starts_with (c # p) (d # t) = (c = d \<and> starts_with p t)"

fun contains :: "str \<Rightarrow> str \<Rightarrow> bool" where
  \<comment> \<open>\<open>contains p t\<close> is Python's \<open>p in t\<close> on texts\<close>
  "contains p [] = (p = [])"
| "contains p (d # t) = (starts_with p (d # t) \<or> contains p t)"

definition ljust :: "str \<Rightarrow> nat \<Rightarrow> nat \<Rightarrow> str" where
  \<comment> \<open>\<open>str.ljust(width, fillchar)\<close>\<close>
  "ljust t width fillchar = t @ replicate (width - length t) fillchar"

fun join :: "str \<Rightarrow> str list \<Rightarrow> str" where
  \<comment> \<open>\<open>sep.join(parts)\<close>\<close>
  "join sep [] = []"
| "join sep [x] = x"
| "join sep (x # y # ys) = x @ sep @ join sep (y # ys)"

section \<open>Numbers\<close>

datatype error = ValueError | KeyError | IndexError | ValidationError

definition py_int :: "str \<Rightarrow> error + int" where
  \<comment> \<open>\<open>int(t)\<close> for a non-empty text of \<open>isdigit\<close> characters, the only texts it is called
     on here: the decimal value, and \<open>ValueError\<close> when a character is no decimal digit\<close>
  "py_int t =
     (if t \<noteq> [] \<and> list_all is_decimal t
      then Inr (foldl (\<lambda>a c. 10 * a + int (c - 48)) 0 t)
      else Inl ValueError)"

function str_nat :: "nat \<Rightarrow> str" where
  "str_nat n = (if n < 10 then [48 + n] else str_nat (n div 10) @ [48 + n mod 10])"
  by pat_completeness auto
termination
  by (relation "measure id") auto

declare str_nat.simps [simp del]

definition str_int :: "int \<Rightarrow> str" where
  \<comment> \<open>\<open>str(i)\<close> for an integer\<close>
  "str_int i = (if i < 0 then 45 # str_nat (nat (- i)) else str_nat (nat i))"

text \<open>
  A Python \<open>float\<close> is modelled by the rational it stands for. \<open>round(x, 1)\<close> rounds to
  the nearest tenth, a tie to the even tenth; CPython decides a tie on the binary value of
  the float, so the two agree except where the exact quotient is a decimal tie that no binary
  float holds. No property below depends on a rounded value.
\<close>

definition round_half_even :: "rat \<Rightarrow> int" where
  "round_half_even x =
     (let f = \<lfloor>x\<rfloor>; d = x - of_int f
      in if d < 1 / 2 then f else if 1 / 2 < d then f + 1 else if even f then f else f + 1)"

definition round1 :: "rat \<Rightarrow> rat" where
  \<comment> \<open>\<open>round(x, 1)\<close>\<close>
  "round1 x = of_int (round_half_even (x * 10)) / 10"

definition str_float1 :: "rat \<Rightarrow> str" where
  \<comment> \<open>how an f-string prints \<open>round(x, 1)\<close>\<close>
  "str_float1 x =
     (let t = round_half_even (x * 10); a = nat \<bar>t\<bar>
      in (if t < 0 then [45] else []) @ str_nat (a div 10) @ [46] @ str_nat (a mod 10))"

section \<open>The store: \<open>tools.py\<close>\<close>

text \<open>
  A timestamp text of the store or of the environment is kept as what
  \<open>datetime.fromisoformat(t.replace('Z', '+00:00')).replace(tzinfo=timezone.utc)\<close> makes of
  it: \<open>None\<close> when \<open>fromisoformat\<close> raises \<open>ValueError\<close>, and otherwise the wall-clock reading
  in microseconds (the offset written in the text is overwritten, not converted).
\<close>

type_synonym iso_time = "int option"

record product =
  product_id :: str
  title :: str
  price :: int
  tags :: "str list"
  sizes :: "str list"
  color :: str

record order =
  order_id :: str
  email :: str
  created_at :: iso_time
  items :: "(str \<times> str) list"

record commerce_tools =
  products :: "product list"
  orders :: "order list"
  env_current_time :: "iso_time option"
    \<comment> \<open>the environment variable \<open>CURRENT_TIME\<close>, \<open>None\<close> when it is not set\<close>

definition days_from_civil :: "int \<Rightarrow> int \<Rightarrow> int \<Rightarrow> int" where
  \<comment> \<open>days from 1970-01-01 to the given day of the proleptic Gregorian calendar\<close>
  "days_from_civil y m d =
     (let y' = (if m \<le> 2 then y - 1 else y);
          era = y' div 400;
          yoe = y' - era * 400;
          doy = (153 * (if 2 < m then m - 3 else m + 9) + 2) div 5 + d - 1;
          doe = yoe * 365 + yoe div 4 - yoe div 100 + doy
      in era * 146097 + doe - 719468)"

definition utc :: "int \<Rightarrow> int \<Rightarrow> int \<Rightarrow> int \<Rightarrow> int \<Rightarrow> int \<Rightarrow> iso_time" where
  \<comment> \<open>the reading of \<open>YYYY-MM-DDTHH:MM:SSZ\<close>\<close>
  "utc y m d hh mm ss =
     Some ((((days_from_civil y m d * 24 + hh) * 60 + mm) * 60 + ss) * 1000000)"

definition fallback_products :: "product list" where
  "fallback_products =
    [\<lparr>product_id = lit ''P1'', title = lit ''Midi Wrap Dress'', price = 119,
       tags = [lit ''wedding'', lit ''midi''], sizes = [lit ''S'', lit ''M'', lit ''L''],
       color = lit ''Charcoal''\<rparr>,
     \<lparr>product_id = lit ''P2'', title = lit ''Satin Slip Dress'', price = 99,
       tags = [lit ''wedding'', lit ''midi''], sizes = [lit ''XS'', lit ''S'', lit ''M''],
       color = lit ''Blush''\<rparr>,
     \<lparr>product_id = lit ''P3'', title = lit ''Knit Bodycon'', price = 89,
       tags = [lit ''midi''], sizes = [lit ''M'', lit ''L''], color = lit ''Navy''\<rparr>,
     \<lparr>product_id = lit ''P4'', title = lit ''A-Line Day Dress'', price = 75,
       tags = [lit ''daywear'', lit ''midi''], sizes = [lit ''S'', lit ''M'', lit ''L''],
       color = lit ''Olive''\<rparr>,
     \<lparr>product_id = lit ''P5'', title = lit ''Sequin Party Dress'', price = 149,
       tags = [lit ''party''], sizes = [lit ''S'', lit ''M''], color = lit ''Black''\<rparr>]"

definition fallback_orders :: "order list" where
  "fallback_orders =
    [\<lparr>order_id = lit ''A1001'', email = lit ''rehan@example.com'',
       created_at = utc 2025 9 7 9 30 0, items = [(lit ''P1'', lit ''M'')]\<rparr>,
     \<lparr>order_id = lit ''A1002'', email = lit ''alex@example.com'',
       created_at = utc 2025 9 6 13 5 0, items = [(lit ''P2'', lit ''S'')]\<rparr>,
     \<lparr>order_id = lit ''A1003'', email = lit ''mira@example.com'',
       created_at = utc 2025 9 7 11 55 0, items = [(lit ''P3'', lit ''L'')]\<rparr>]"

definition fallback_tools :: commerce_tools where
  \<comment> \<open>\<open>CommerceTools()\<close> with no data files and no \<open>CURRENT_TIME\<close> in the environment\<close>
  "fallback_tools =
     \<lparr>products = fallback_products, orders = fallback_orders, env_current_time = None\<rparr>"

definition noon_tools :: commerce_tools where
  \<comment> \<open>the same store with \<open>CURRENT_TIME=2025-09-07T12:00:00Z\<close>, five minutes after order
     A1003 was created\<close>
  "noon_tools = fallback_tools\<lparr>env_current_time := Some (utc 2025 9 7 12 0 0)\<rparr>"

fun search_loop :: "product list \<Rightarrow> str \<Rightarrow> int \<Rightarrow> str list \<Rightarrow> product list \<Rightarrow> product list" where
  \<comment> \<open>the \<open>for product in self.products\<close> loop of \<open>product_search\<close>, \<open>results\<close> last\<close>
  "search_loop [] query price_max tgs results = results"
| "search_loop (p # ps) query price_max tgs results =
     (if price p > price_max then search_loop ps query price_max tgs results
      else if tgs \<noteq> [] \<and> \<not> list_ex (\<lambda>tag. tag \<in> set (tags p)) tgs
        then search_loop ps query price_max tgs results
      else if query \<noteq> [] \<and>
          \<not> (contains (lower query) (lower (title p)) \<or>
             list_ex (\<lambda>tag. contains (lower query) (lower tag)) (tags p))
        then search_loop ps query price_max tgs results
      else search_loop ps query price_max tgs (results @ [p]))"

definition product_search :: "commerce_tools \<Rightarrow> str \<Rightarrow> int \<Rightarrow> str list \<Rightarrow> product list" where
  "product_search self query price_max tgs =
     take 2 (sort_key price (search_loop (products self) query price_max tgs []))"

definition size_recommender :: "str \<Rightarrow> str" where
  "size_recommender user_inputs =
     (let user_lower = lower user_inputs in
      if list_ex (\<lambda>word. contains word user_lower)
           [lit ''fitted'', lit ''tight'', lit ''small'', lit ''petite'']
        then lit ''I'd recommend size M for a more fitted look''
      else if list_ex (\<lambda>word. contains word user_lower)
           [lit ''loose'', lit ''comfortable'', lit ''roomy'', lit ''large'']
        then lit ''I'd recommend size L for a more comfortable fit''
      else if contains (lit ''between m/l'') user_lower \<or>
              contains (lit ''between m and l'') user_lower
        then lit ''For M vs L: choose M if you prefer fitted style, L if you want more room and comfort''
      else lit ''I'd recommend size M as a good middle ground, but L if you prefer looser fits'')"

definition eta :: "str \<Rightarrow> error + str" where
  "eta zip_code =
     (let zip_digits = filter isdigit zip_code in
      if zip_digits = [] then Inr (lit ''3-4 business days'')
      else
        (case py_int (ljust (take 6 zip_digits) 6 48) of
           Inl e \<Rightarrow> Inl e
         | Inr zip_int \<Rightarrow>
             if zip_int < 400000 then Inr (lit ''3-4 business days'')
             else if zip_int < 600000 then Inr (lit ''2-3 business days'')
             else Inr (lit ''4-5 business days'')))"

fun lookup_loop :: "order list \<Rightarrow> str \<Rightarrow> str \<Rightarrow> order option" where
  "lookup_loop [] oid em = None"
| "lookup_loop (ord # ords) oid em =
     (if order_id ord = oid \<and> email ord = em then Some ord else lookup_loop ords oid em)"

definition order_lookup :: "commerce_tools \<Rightarrow> str \<Rightarrow> str \<Rightarrow> order option" where
  "order_lookup self oid em = lookup_loop (orders self) oid em"

record cancel_result =
  success :: bool
  reason :: str
  message :: str
  time_diff_minutes :: "rat option"
  alternatives :: "str list option"

definition default_current_time :: iso_time where
  \<comment> \<open>\<open>"2025-09-08T11:05:00Z"\<close>\<close>
  "default_current_time = utc 2025 9 8 11 5 0"

definition cancel_alternatives :: "str list" where
  "cancel_alternatives =
     [lit ''Update shipping address'', lit ''Convert to store credit'',
      lit ''Connect with customer support'']"

definition reference_time :: "commerce_tools \<Rightarrow> iso_time option \<Rightarrow> iso_time" where
  \<comment> \<open>the first two lines of \<open>order_cancel\<close>: the argument, and without it
     \<open>os.getenv("CURRENT_TIME", "2025-09-08T11:05:00Z")\<close>\<close>
  "reference_time self current_time =
     (case current_time of
        Some t \<Rightarrow> t
      | None \<Rightarrow> (case env_current_time self of Some t \<Rightarrow> t | None \<Rightarrow> default_current_time))"

definition order_cancel ::
  "commerce_tools \<Rightarrow> str \<Rightarrow> str \<Rightarrow> iso_time option \<Rightarrow> error + cancel_result" where
  \<comment> \<open>\<open>current_time = None\<close> is the call without the argument\<close>
  "order_cancel self oid em current_time =
     (let now = reference_time self current_time
      in case order_lookup self oid em of
           None \<Rightarrow>
             Inr \<lparr>success = False, reason = lit ''order_not_found'',
                  message = lit ''Order not found with provided ID and email'',
                  time_diff_minutes = None, alternatives = None\<rparr>
         | Some ord \<Rightarrow>
             (case created_at ord of
                None \<Rightarrow> Inl ValueError
              | Some created \<Rightarrow>
                  (case now of
                     None \<Rightarrow> Inl ValueError
                   | Some current_dt \<Rightarrow>
                       (let time_diff_minutes = of_int (current_dt - created) / 1000000 / 60
                        in if time_diff_minutes \<le> 60
                           then Inr \<lparr>success = True, reason = lit ''within_policy'',
                                  message = lit ''Order '' @ oid @
                                    lit '' cancelled successfully. Refund will process in 3-5 business days.'',
                                  time_diff_minutes = Some (round1 time_diff_minutes),
                                  alternatives = None\<rparr>
                           else Inr \<lparr>success = False, reason = lit ''policy_violation'',
                                  message = lit ''Order was placed '' @
                                    str_float1 (time_diff_minutes / 60) @
                                    lit '' hours ago, beyond our 60-minute cancellation window.'',
                                  time_diff_minutes = Some (round1 time_diff_minutes),
                                  alternatives = Some cancel_alternatives\<rparr>))))"

section \<open>The regular expressions of \<open>graph.py\<close>\<close>

text \<open>
  Each of the four patterns is searched as \<open>re.search\<close> does: the start positions are tried
  from the left, and at a start position the pattern is matched with the priorities of the
  backtracking matcher (a greedy repetition takes the longest run that lets the rest match, a
  lazy one the shortest). The functions return the group the caller reads.
\<close>

fun lazy_dot_digits :: "str \<Rightarrow> str option" where
  \<comment> \<open>\<open>.*?(\d+)\<close> at the head of the text: the dot matches any character but the newline\<close>
  "lazy_dot_digits [] = None"
| "lazy_dot_digits (c # t) =
     (if is_decimal c then Some (takeWhile is_decimal (c # t))
      else if c = 10 then None
      else lazy_dot_digits t)"

definition price_match_at :: "str \<Rightarrow> str option" where
  "price_match_at t = (if starts_with (lit ''under'') t then lazy_dot_digits (drop 5 t) else None)"

fun price_search :: "str \<Rightarrow> str option" where
  \<comment> \<open>group 1 of \<open>re.search(r'under.*?(\d+)', t)\<close>\<close>
  "price_search [] = None"
| "price_search (c # t) =
     (case price_match_at (c # t) of Some g \<Rightarrow> Some g | None \<Rightarrow> price_search t)"

definition order_match_at :: "str \<Rightarrow> str option" where
  "order_match_at t =
     (if lower (take 5 t) = lit ''order'' \<and> takeWhile is_space (drop 5 t) \<noteq> [] then
        (case dropWhile is_space (drop 5 t) of
           [] \<Rightarrow> None
         | l # ds \<Rightarrow>
             if is_ascii_letter l \<and> takeWhile is_decimal ds \<noteq> []
             then Some (l # takeWhile is_decimal ds) else None)
      else None)"

fun order_search :: "str \<Rightarrow> str option" where
  \<comment> \<open>group 1 of \<open>re.search(r'order\s+([A-Z]\d+)', t, re.IGNORECASE)\<close>\<close>
  "order_search [] = None"
| "order_search (c # t) =
     (case order_match_at (c # t) of Some g \<Rightarrow> Some g | None \<Rightarrow> order_search t)"

definition is_email_char :: "nat \<Rightarrow> bool" where
  \<comment> \<open>the class \<open>[\w\.-]\<close>\<close>
  "is_email_char c = (is_word c \<or> c = 46 \<or> c = 45)"

fun domain_tail :: "str \<Rightarrow> str option" where
  \<comment> \<open>the rest of \<open>[\w\.-]+\.\w+\<close> after its first character, inside a run of
     \<open>[\w\.-]\<close> characters: the greedy repetition gives way to the last dot that a word
     character follows\<close>
  "domain_tail [] = None"
| "domain_tail (c # t) =
     (case domain_tail t of
        Some m \<Rightarrow> Some (c # m)
      | None \<Rightarrow>
          if c = 46 \<and> takeWhile is_word t \<noteq> [] then Some (c # takeWhile is_word t) else None)"

definition email_match_at :: "str \<Rightarrow> str option" where
  "email_match_at t =
     (let local = takeWhile is_email_char t in
      if local = [] then None
      else
        (case dropWhile is_email_char t of
           [] \<Rightarrow> None
         | c # r \<Rightarrow>
             if c \<noteq> 64 then None
             else
               (case takeWhile is_email_char r of
                  [] \<Rightarrow> None
                | d # ds \<Rightarrow>
                    (case domain_tail ds of
                       None \<Rightarrow> None
                     | Some m \<Rightarrow> Some (local @ [64] @ d # m)))))"

fun email_search :: "str \<Rightarrow> str option" where
  \<comment> \<open>group 0 of \<open>re.search(r'[\w\.-]+@[\w\.-]+\.\w+', t)\<close>\<close>
  "email_search [] = None"
| "email_search (c # t) =
     (case email_match_at (c # t) of Some g \<Rightarrow> Some g | None \<Rightarrow> email_search t)"

definition zip_match_at :: "bool \<Rightarrow> str \<Rightarrow> str option" where
  \<comment> \<open>\<open>\b\d{6}\b\<close> at the head of the text; \<open>prev_word\<close>: a word character stands before it\<close>
  "zip_match_at prev_word t =
     (if \<not> prev_word \<and> length (take 6 t) = 6 \<and> list_all is_decimal (take 6 t) \<and>
         (case drop 6 t of [] \<Rightarrow> True | c # r \<Rightarrow> \<not> is_word c)
      then Some (take 6 t) else None)"

fun zip_search :: "bool \<Rightarrow> str \<Rightarrow> str option" where
  \<comment> \<open>group 0 of \<open>re.search(r'\b\d{6}\b', t)\<close>, called with \<open>prev_word = False\<close>\<close>
  "zip_search prev_word [] = None"
| "zip_search prev_word (c # t) =
     (case zip_match_at prev_word (c # t) of
        Some z \<Rightarrow> Some z
      | None \<Rightarrow> zip_search (is_word c) t)"

section \<open>The pipeline: \<open>graph.py\<close>\<close>

datatype json =
    JNull
  | JBool bool
  | JInt int
  | JFloat rat
  | JStr str
  | JArr "json list"
  | JObj "(str \<times> json) list"

datatype evidence_item =
    Product_item product  \<comment> \<open>\<open>{"type": "product", "data": p}\<close>\<close>
  | Order_item order  \<comment> \<open>\<open>{"type": "order", "data": order}\<close>\<close>

datatype decision =
    Cancel_decision bool str str "str list option"
      \<comment> \<open>\<open>{"cancel_allowed", "reason", "message"}\<close>, and \<open>"alternatives"\<close> when given\<close>
  | Refuse_decision bool str
      \<comment> \<open>\<open>{"refuse", "reason"}\<close>\<close>

record commerce_state =
  messages :: "str list"  \<comment> \<open>the contents of the messages\<close>
  intent :: str
  tools_called :: "str list"
  evidence :: "evidence_item list"
  policy_decision :: "decision option"
  final_message :: str
  trace :: json

definition router_node :: "commerce_state \<Rightarrow> commerce_state" where
  "router_node state =
     (if messages state = [] then state\<lparr>intent := lit ''other''\<rparr>
      else
        (let user_message = lower (last (messages state));
             product_keywords = [lit ''dress'', lit ''product'', lit ''wedding'', lit ''midi'',
                                 lit ''size'', lit ''price'', lit ''eta'', lit ''under''];
             order_keywords = [lit ''cancel'', lit ''order'', lit ''refund'']
         in if list_ex (\<lambda>word. contains word user_message) product_keywords \<and>
               \<not> contains (lit ''cancel'') user_message
              then state\<lparr>intent := lit ''product_assist''\<rparr>
            else if list_ex (\<lambda>word. contains word user_message) order_keywords
              then state\<lparr>intent := lit ''order_help''\<rparr>
            else state\<lparr>intent := lit ''other''\<rparr>))"

definition tool_selector_node :: "commerce_state \<Rightarrow> commerce_state" where
  "tool_selector_node state =
     (if intent state = lit ''product_assist''
        then state\<lparr>tools_called := [lit ''product_search'', lit ''size_recommender'', lit ''eta'']\<rparr>
      else if intent state = lit ''order_help''
        then state\<lparr>tools_called := [lit ''order_lookup'', lit ''order_cancel'']\<rparr>
      else state\<lparr>tools_called := []\<rparr>)"

definition extract_price_max :: "str \<Rightarrow> error + int" where
  \<comment> \<open>the price constraint of \<open>execute_tools_node\<close>, read from the lower-cased message\<close>
  "extract_price_max message_lower =
     (case price_search message_lower of None \<Rightarrow> Inr 1000 | Some g \<Rightarrow> py_int g)"

definition search_evidence :: "commerce_tools \<Rightarrow> str \<Rightarrow> error + evidence_item list" where
  \<comment> \<open>the \<open>if "product_search" in tools_called\<close> block of \<open>execute_tools_node\<close>\<close>
  "search_evidence self user_message =
     (let message_lower = lower user_message;
          wedding = list_ex (\<lambda>word. contains word message_lower) [lit ''wedding'', lit ''midi''];
          query = (if wedding then lit ''midi'' else []);
          tgs = (if wedding then [lit ''wedding'', lit ''midi''] else [])
      in case extract_price_max message_lower of
           Inl e \<Rightarrow> Inl e
         | Inr price_max \<Rightarrow> Inr (map Product_item (product_search self query price_max tgs)))"

definition lookup_evidence :: "commerce_tools \<Rightarrow> str \<Rightarrow> evidence_item list" where
  \<comment> \<open>the \<open>if "order_lookup" in tools_called\<close> block of \<open>execute_tools_node\<close>\<close>
  "lookup_evidence self user_message =
     (case order_search user_message of
        None \<Rightarrow> []
      | Some oid \<Rightarrow>
          (case email_search user_message of
             None \<Rightarrow> []
           | Some em \<Rightarrow>
               (case order_lookup self oid em of
                  None \<Rightarrow> []
                | Some ord \<Rightarrow> [Order_item ord])))"

definition execute_tools_node :: "commerce_tools \<Rightarrow> commerce_state \<Rightarrow> error + commerce_state" where
  "execute_tools_node self state =
     (let user_message = (if messages state \<noteq> [] then last (messages state) else [])
      in case (if lit ''product_search'' \<in> set (tools_called state)
               then search_evidence self user_message else Inr []) of
           Inl e \<Rightarrow> Inl e
         | Inr found \<Rightarrow>
             Inr (state\<lparr>evidence :=
                    found @ (if lit ''order_lookup'' \<in> set (tools_called state)
                             then lookup_evidence self user_message else [])\<rparr>))"

definition cancel_decision :: "commerce_tools \<Rightarrow> str \<Rightarrow> error + decision option" where
  \<comment> \<open>the \<open>if intent == "order_help"\<close> block of \<open>policy_guard_node\<close>\<close>
  "cancel_decision self user_message =
     (case order_search user_message of
        None \<Rightarrow> Inr None
      | Some oid \<Rightarrow>
          (case email_search user_message of
             None \<Rightarrow> Inr None
           | Some em \<Rightarrow>
               (case order_cancel self oid em None of
                  Inl e \<Rightarrow> Inl e
                | Inr cancel_result \<Rightarrow>
                    if success cancel_result
                    then Inr (Some (Cancel_decision True (lit ''within_policy'')
                                      (message cancel_result) None))
                    else Inr (Some (Cancel_decision False (reason cancel_result)
                                      (message cancel_result)
                                      (Some (case alternatives cancel_result of
                                               None \<Rightarrow> []
                                             | Some alts \<Rightarrow> alts)))))))"

definition policy_guard_node :: "commerce_tools \<Rightarrow> commerce_state \<Rightarrow> error + commerce_state" where
  "policy_guard_node self state =
     (if intent state = lit ''order_help'' then
        (if messages state = [] then Inl IndexError
         else
           (case cancel_decision self (last (messages state)) of
              Inl e \<Rightarrow> Inl e
            | Inr d \<Rightarrow> Inr (state\<lparr>policy_decision := d\<rparr>)))
      else if intent state = lit ''other'' then
        (if messages state = [] then Inl IndexError
         else
           (let user_message = lower (last (messages state))
            in if contains (lit ''discount code'') user_message \<and>
                  list_ex (\<lambda>word. contains word user_message)
                    [lit ''doesn't exist'', lit ''non-existent'', lit ''fake'']
               then Inr (state\<lparr>policy_decision :=
                           Some (Refuse_decision True (lit ''invalid_discount_request''))\<rparr>)
               else Inr (state\<lparr>policy_decision := None\<rparr>)))
      else Inr (state\<lparr>policy_decision := None\<rparr>))"

fun evidence_json :: "evidence_item \<Rightarrow> json" where
  \<comment> \<open>the entry of the trace: \<open>id\<close>, then the keys \<open>title\<close>, \<open>price\<close>, \<open>sizes\<close>, \<open>order_id\<close>,
     \<open>email\<close>, \<open>color\<close> that the data holds, in the order of the data\<close>
  "evidence_json (Product_item p) =
     JObj [(lit ''id'', JStr (product_id p)), (lit ''title'', JStr (title p)),
           (lit ''price'', JInt (price p)), (lit ''sizes'', JArr (map JStr (sizes p))),
           (lit ''color'', JStr (color p))]"
| "evidence_json (Order_item ord) =
     JObj [(lit ''id'', JStr (order_id ord)), (lit ''order_id'', JStr (order_id ord)),
           (lit ''email'', JStr (email ord))]"

fun decision_json :: "decision option \<Rightarrow> json" where
  "decision_json None = JNull"
| "decision_json (Some (Cancel_decision allowed rsn msg alts)) =
     JObj ([(lit ''cancel_allowed'', JBool allowed), (lit ''reason'', JStr rsn),
            (lit ''message'', JStr msg)] @
           (case alts of None \<Rightarrow> [] | Some a \<Rightarrow> [(lit ''alternatives'', JArr (map JStr a))]))"
| "decision_json (Some (Refuse_decision r rsn)) =
     JObj [(lit ''refuse'', JBool r), (lit ''reason'', JStr rsn)]"

fun dict_set :: "str \<Rightarrow> json \<Rightarrow> (str \<times> json) list \<Rightarrow> (str \<times> json) list" where
  \<comment> \<open>\<open>d[k] = v\<close>\<close>
  "dict_set k v [] = [(k, v)]"
| "dict_set k v ((k', v') # kvs) =
     (if k' = k then (k, v) # kvs else (k', v') # dict_set k v kvs)"

fun product_lines :: "product list \<Rightarrow> str" where
  "product_lines [] = []"
| "product_lines (p # ps) =
     [8226, 32] @ title p @ lit '' ($'' @ str_int (price p) @ lit '', '' @ color p @
     lit '') - Available in '' @ join (lit '', '') (sizes p) @ [10] @ product_lines ps"

fun alternative_lines :: "nat \<Rightarrow> str list \<Rightarrow> str" where
  "alternative_lines i [] = []"
| "alternative_lines i (alt # alts) =
     str_nat i @ lit ''. '' @ alt @ [10] @ alternative_lines (i + 1) alts"

fun products_of :: "evidence_item list \<Rightarrow> product list" where
  \<comment> \<open>\<open>[e["data"] for e in evidence if e["type"] == "product"]\<close>\<close>
  "products_of [] = []"
| "products_of (Product_item p # es) = p # products_of es"
| "products_of (Order_item ord # es) = products_of es"

definition no_products_message :: str where
  "no_products_message =
     lit ''I couldn't find any products matching your criteria. Please try adjusting your price range or preferences.''"

definition need_identifiers_message :: str where
  "need_identifiers_message =
     lit ''I need both your order ID and email address to help you with order-related requests.''"

definition refusal_message :: str where
  "refusal_message =
     lit ''I can't provide non-existent discount codes, but I can suggest these legitimate offers:'' @ [10] @
     [8226] @ lit '' Sign up for our newsletter for 10% off your first order'' @ [10] @
     [8226] @ lit '' Follow us on social media for exclusive deals'' @ [10] @
     [8226] @ lit '' Check our current promotions page for active discounts''"

definition helper_message :: str where
  "helper_message =
     lit ''I'm here to help with product searches and order management. How can I assist you today?''"

definition product_reply :: "product list \<Rightarrow> str \<Rightarrow> error + str" where
  \<comment> \<open>the \<open>if intent == "product_assist"\<close> branch of \<open>responder_node\<close>\<close>
  "product_reply prods user_message =
     (if prods \<noteq> [] then
        (let m1 = lit ''I found '' @ str_int (int (length prods)) @ lit '' dress'' @
                  (if length prods > 1 then lit ''es'' else []) @ lit '' for you:'' @ [10, 10] @
                  product_lines prods;
             m2 = (if contains (lit ''between m/l'') (lower user_message) \<or>
                      contains (lit ''m/l'') (lower user_message)
                   then m1 @ [10] @ size_recommender user_message @ [46, 10]
                   else m1)
         in case zip_search False user_message of
              None \<Rightarrow> Inr m2
            | Some zip_code \<Rightarrow>
                (case eta zip_code of
                   Inl e \<Rightarrow> Inl e
                 | Inr days \<Rightarrow>
                     Inr (m2 @ [10] @ lit ''Delivery to '' @ zip_code @ lit '': '' @ days @ [46])))
      else Inr no_products_message)"

definition order_reply :: "decision option \<Rightarrow> error + str" where
  \<comment> \<open>the \<open>elif intent == "order_help"\<close> branch of \<open>responder_node\<close>\<close>
  "order_reply pd =
     (case pd of
        None \<Rightarrow> Inr need_identifiers_message
      | Some (Cancel_decision allowed rsn msg alts) \<Rightarrow>
          if allowed then Inr msg
          else Inr (msg @ [10, 10] @ lit ''I can help you with these alternatives:'' @ [10] @
                    alternative_lines 1 (case alts of None \<Rightarrow> [] | Some a \<Rightarrow> a) @
                    [10] @ lit ''Which option would you prefer?'')
      | Some (Refuse_decision r rsn) \<Rightarrow> Inl KeyError)"

definition other_reply :: "decision option \<Rightarrow> str" where
  \<comment> \<open>the \<open>elif intent == "other"\<close> branch of \<open>responder_node\<close>\<close>
  "other_reply pd =
     (case pd of
        Some (Refuse_decision r rsn) \<Rightarrow> if r then refusal_message else helper_message
      | Some (Cancel_decision allowed rsn msg alts) \<Rightarrow> helper_message
      | None \<Rightarrow> helper_message)"

definition responder_node :: "commerce_state \<Rightarrow> error + commerce_state" where
  "responder_node state =
     (let user_message = (if messages state \<noteq> [] then last (messages state) else []);
          trace0 = [(lit ''intent'', JStr (intent state)),
                    (lit ''tools_called'', JArr (map JStr (tools_called state))),
                    (lit ''evidence'', JArr (map evidence_json (evidence state))),
                    (lit ''policy_decision'', decision_json (policy_decision state)),
                    (lit ''final_message'', JStr [])]
      in case (if intent state = lit ''product_assist''
                 then product_reply (products_of (evidence state)) user_message
               else if intent state = lit ''order_help''
                 then order_reply (policy_decision state)
               else if intent state = lit ''other''
                 then Inr (other_reply (policy_decision state))
               else Inr []) of
           Inl e \<Rightarrow> Inl e
         | Inr msg \<Rightarrow>
             Inr (state\<lparr>final_message := msg,
                        trace := JObj (dict_set (lit ''final_message'') (JStr msg) trace0)\<rparr>))"

definition initial_state :: "str \<Rightarrow> commerce_state" where
  \<comment> \<open>the state \<open>run_agent\<close> hands to the graph\<close>
  "initial_state user_input =
     \<lparr>messages = [user_input], intent = [], tools_called = [], evidence = [],
      policy_decision = None, final_message = [], trace = JObj []\<rparr>"

definition run_agent :: "commerce_tools \<Rightarrow> str \<Rightarrow> error + (json \<times> str)" where
  \<comment> \<open>the graph is the chain router, tool selector, execute tools, policy guard, responder;
     the result is the pair \<open>(trace, final_message)\<close>\<close>
  "run_agent self user_input =
     (let s0 = initial_state user_input
      in case execute_tools_node self (tool_selector_node (router_node s0)) of
           Inl e \<Rightarrow> Inl e
         | Inr s3 \<Rightarrow>
             (case policy_guard_node self s3 of
                Inl e \<Rightarrow> Inl e
              | Inr s4 \<Rightarrow>
                  (case responder_node s4 of
                     Inl e \<Rightarrow> Inl e
                   | Inr s5 \<Rightarrow> Inr (trace s5, final_message s5))))"

section \<open>The trace schema: \<open>schema_validator.py\<close>\<close>

fun is_string :: "json \<Rightarrow> bool" where
  "is_string (JStr t) = True"
| "is_string j = False"

fun is_boolean :: "json \<Rightarrow> bool" where
  "is_boolean (JBool b) = True"
| "is_boolean j = False"

fun is_object :: "json \<Rightarrow> bool" where
  "is_object (JObj kvs) = True"
| "is_object j = False"

fun is_string_array :: "json \<Rightarrow> bool" where
  \<comment> \<open>\<open>{"type": "array", "items": {"type": "string"}}\<close>\<close>
  "is_string_array (JArr js) = list_all is_string js"
| "is_string_array j = False"

fun is_object_array :: "json \<Rightarrow> bool" where
  \<comment> \<open>\<open>{"type": "array", "items": {"type": "object", "additionalProperties": True}}\<close>\<close>
  "is_object_array (JArr js) = list_all is_object js"
| "is_object_array j = False"

definition property_ok :: "(json \<Rightarrow> bool) \<Rightarrow> (str \<times> json) list \<Rightarrow> str \<Rightarrow> bool" where
  \<comment> \<open>an entry of \<open>"properties"\<close>: it constrains the key only where the key is present\<close>
  "property_ok schema kvs k = (case map_of kvs k of None \<Rightarrow> True | Some v \<Rightarrow> schema v)"

definition required :: "(str \<times> json) list \<Rightarrow> str list \<Rightarrow> bool" where
  "required kvs ks = list_all (\<lambda>k. map_of kvs k \<noteq> None) ks"

fun policy_decision_schema :: "json \<Rightarrow> bool" where
  \<comment> \<open>the \<open>oneOf\<close> of the null type and the object with \<open>cancel_allowed\<close> required; a value is
     never both\<close>
  "policy_decision_schema JNull = True"
| "policy_decision_schema (JObj kvs) =
     (property_ok is_boolean kvs (lit ''cancel_allowed'') \<and>
      property_ok is_string kvs (lit ''reason'') \<and>
      property_ok is_string_array kvs (lit ''alternatives'') \<and>
      required kvs [lit ''cancel_allowed''])"
| "policy_decision_schema j = False"

fun trace_schema :: "json \<Rightarrow> bool" where
  \<comment> \<open>\<open>TRACE_SCHEMA\<close>\<close>
  "trace_schema (JObj kvs) =
     (required kvs [lit ''intent'', lit ''tools_called'', lit ''evidence'',
                    lit ''policy_decision'', lit ''final_message''] \<and>
      property_ok (\<lambda>j. j \<in> set [JStr (lit ''product_assist''), JStr (lit ''order_help''),
                                 JStr (lit ''other'')]) kvs (lit ''intent'') \<and>
      property_ok is_string_array kvs (lit ''tools_called'') \<and>
      property_ok is_object_array kvs (lit ''evidence'') \<and>
      property_ok policy_decision_schema kvs (lit ''policy_decision'') \<and>
      property_ok is_string kvs (lit ''final_message''))"
| "trace_schema j = False"

definition validate_trace :: "json \<Rightarrow> error + bool" where
  "validate_trace tr = (if trace_schema tr then Inr True else Inl ValidationError)"

section \<open>Notions of the specification\<close>

definition matches_order :: "str \<Rightarrow> str \<Rightarrow> order \<Rightarrow> bool" where
  \<comment> \<open>the (order id, email) pair matches the order, both compared exactly\<close>
  "matches_order oid em ord = (order_id ord = oid \<and> email ord = em)"

definition elapsed_minutes :: "int \<Rightarrow> int \<Rightarrow> rat" where
  \<comment> \<open>the minutes from \<open>created\<close> to \<open>now\<close>, both in microseconds\<close>
  "elapsed_minutes created now = of_int (now - created) / 60000000"



definition not_found_result :: cancel_result where
  "not_found_result =
     \<lparr>success = False, reason = lit ''order_not_found'',
      message = lit ''Order not found with provided ID and email'',
      time_diff_minutes = None, alternatives = None\<rparr>"

definition classify :: "str \<Rightarrow> str" where
  \<comment> \<open>the intent the router gives a message\<close>
  "classify text = intent (router_node (initial_state text))"

definition mentions :: "str \<Rightarrow> str \<Rightarrow> bool" where
  \<comment> \<open>the text contains the keyword, case-insensitively\<close>
  "mentions k text = (\<exists>pre post. lower text = pre @ k @ post)"

definition product_keywords :: "str set" where
  "product_keywords = {lit ''dress'', lit ''product'', lit ''wedding'', lit ''midi'',
                       lit ''size'', lit ''price'', lit ''eta'', lit ''under''}"

definition order_keywords :: "str set" where
  "order_keywords = {lit ''cancel'', lit ''order'', lit ''refund''}"

definition plan :: "str \<Rightarrow> str list" where
  \<comment> \<open>the tool planner's table\<close>
  "plan i =
     (if i = lit ''product_assist'' then [lit ''product_search'', lit ''size_recommender'', lit ''eta'']
      else if i = lit ''order_help'' then [lit ''order_lookup'', lit ''order_cancel'']
      else [])"

definition trace_object :: "str \<Rightarrow> str list \<Rightarrow> json list \<Rightarrow> json \<Rightarrow> str \<Rightarrow> json" where
  \<comment> \<open>the trace with its five fields\<close>
  "trace_object i tools ev pd msg =
     JObj [(lit ''intent'', JStr i), (lit ''tools_called'', JArr (map JStr tools)),
           (lit ''evidence'', JArr ev), (lit ''policy_decision'', pd),
           (lit ''final_message'', JStr msg)]"

definition field :: "str \<Rightarrow> json \<Rightarrow> json option" where
  \<comment> \<open>the value of a field of an object, \<open>None\<close> when the value is no object or lacks it\<close>
  "field k j = (case j of JObj kvs \<Rightarrow> map_of kvs k | _ \<Rightarrow> None)"

definition discount_pattern :: "str \<Rightarrow> bool" where
  \<comment> \<open>the text asks for a discount code that does not exist\<close>
  "discount_pattern text =
     (mentions (lit ''discount code'') text \<and>
      (mentions (lit ''doesn't exist'') text \<or> mentions (lit ''non-existent'') text \<or>
       mentions (lit ''fake'') text))"

definition readable_times :: "commerce_tools \<Rightarrow> bool" where
  \<comment> \<open>every timestamp the pipeline reads is one \<open>fromisoformat\<close> accepts\<close>
  "readable_times self =
     (list_all (\<lambda>ord. created_at ord \<noteq> None) (orders self) \<and> reference_time self None \<noteq> None)"


definition decimal_value :: "str \<Rightarrow> int" where
  \<comment> \<open>the integer a text of decimal digits denotes\<close>
  "decimal_value ds = foldl (\<lambda>a c. 10 * a + int (c - 48)) 0 ds"








section \<open>Substrings\<close>

lemma starts_with_iff: "starts_with p t \<longleftrightarrow> (\<exists>post. t = p @ post)"
  by (induction p t rule: starts_with.induct) auto

lemma contains_iff: "contains p t \<longleftrightarrow> (\<exists>pre post. t = pre @ p @ post)"
proof (induction t)
  case Nil
  then show ?case by auto
next
  case (Cons d t)
  show ?case
  proof
    assume "contains p (d # t)"
    then consider "starts_with p (d # t)" | "contains p t" by auto
    then show "\<exists>pre post. d # t = pre @ p @ post"
    proof cases
      case 1
      then obtain post where "d # t = p @ post" by (auto simp: starts_with_iff)
      then have "d # t = [] @ p @ post" by simp
      then show ?thesis by blast
    next
      case 2
      then obtain pre post where "t = pre @ p @ post" using Cons.IH by auto
      then have "d # t = (d # pre) @ p @ post" by simp
      then show ?thesis by blast
    qed
  next
    assume "\<exists>pre post. d # t = pre @ p @ post"
    then obtain pre post where eq: "d # t = pre @ p @ post" by auto
    show "contains p (d # t)"
    proof (cases pre)
      case Nil
      then have "starts_with p (d # t)" using eq by (auto simp: starts_with_iff)
      then show ?thesis by simp
    next
      case (Cons a pre')
      then have "t = pre' @ p @ post" using eq by simp
      then have "contains p t" using Cons.IH by auto
      then show ?thesis by simp
    qed
  qed
qed

lemma mentions_contains: "mentions k text = contains k (lower text)"
  by (simp add: mentions_def contains_iff)

section \<open>Intent classification\<close>

lemma classify_eq:
  "classify text =
     (if (contains (lit ''dress'') (lower text) \<or> contains (lit ''product'') (lower text) \<or>
          contains (lit ''wedding'') (lower text) \<or> contains (lit ''midi'') (lower text) \<or>
          contains (lit ''size'') (lower text) \<or> contains (lit ''price'') (lower text) \<or>
          contains (lit ''eta'') (lower text) \<or> contains (lit ''under'') (lower text)) \<and>
         \<not> contains (lit ''cancel'') (lower text)
      then lit ''product_assist''
      else if contains (lit ''cancel'') (lower text) \<or> contains (lit ''order'') (lower text) \<or>
              contains (lit ''refund'') (lower text)
      then lit ''order_help'' else lit ''other'')"
  by (simp add: classify_def router_node_def initial_state_def Let_def)

lemma intent_names_distinct:
  "lit ''product_assist'' \<noteq> lit ''order_help''" "lit ''product_assist'' \<noteq> lit ''other''"
  "lit ''order_help'' \<noteq> lit ''other''"
  by (simp_all add: lit_def)



section \<open>Order lookup and the cancellation policy\<close>


lemma lookup_loop_None:
  "lookup_loop ords oid em = None \<longleftrightarrow> \<not> list_ex (matches_order oid em) ords"
  by (induction ords) (auto simp: matches_order_def)

lemma lookup_loop_Some:
  "lookup_loop ords oid em = Some ord \<Longrightarrow> ord \<in> set ords \<and> matches_order oid em ord"
  by (induction ords) (auto simp: matches_order_def split: if_splits)

lemma order_cancel_not_found:
  "order_lookup self oid em = None \<Longrightarrow> order_cancel self oid em current_time = Inr not_found_result"
  by (simp add: order_cancel_def not_found_result_def)

lemma order_cancel_found:
  assumes "order_lookup self oid em = Some ord" "created_at ord = Some created"
    "reference_time self current_time = Some now"
  shows "order_cancel self oid em current_time =
     (if elapsed_minutes created now \<le> 60
      then Inr \<lparr>success = True, reason = lit ''within_policy'',
             message = lit ''Order '' @ oid @
               lit '' cancelled successfully. Refund will process in 3-5 business days.'',
             time_diff_minutes = Some (round1 (elapsed_minutes created now)),
             alternatives = None\<rparr>
      else Inr \<lparr>success = False, reason = lit ''policy_violation'',
             message = lit ''Order was placed '' @ str_float1 (elapsed_minutes created now / 60) @
               lit '' hours ago, beyond our 60-minute cancellation window.'',
             time_diff_minutes = Some (round1 (elapsed_minutes created now)),
             alternatives = Some cancel_alternatives\<rparr>)"
proof -
  have "(of_int (now - created) :: rat) / 1000000 / 60 = elapsed_minutes created now"
    by (simp add: elapsed_minutes_def)
  then show ?thesis using assms by (simp add: order_cancel_def Let_def)
qed


lemma utc_values:
  "utc 2025 9 7 11 55 0 = Some 1757246100000000"
  "utc 2025 9 7 12 55 0 = Some 1757249700000000"
  "utc 2025 9 7 12 56 0 = Some 1757249760000000"
  by (simp_all add: utc_def days_from_civil_def)

lemma lookup_a1003:
  "order_lookup fallback_tools (lit ''A1003'') (lit ''mira@example.com'') =
     Some \<lparr>order_id = lit ''A1003'', email = lit ''mira@example.com'',
       created_at = utc 2025 9 7 11 55 0, items = [(lit ''P3'', lit ''L'')]\<rparr>"
  by (simp add: order_lookup_def fallback_tools_def fallback_orders_def lit_def)


text \<open>
  Claim C6. When the order id exists in the store but only with other emails, \<open>order_lookup\<close>
  and \<open>order_cancel\<close> return exactly what they return for an id that no order has: no order,
  and the same \<open>order_not_found\<close> decision with the same message, whatever the reference
  time.
\<close>

theorem lookup_miss_indistinguishable:
  assumes "list_ex (\<lambda>ord. order_id ord = oid \<and> email ord \<noteq> em) (orders self)"
    and "\<not> list_ex (matches_order oid em) (orders self)"
    and "\<not> list_ex (\<lambda>ord. order_id ord = oid') (orders self)"
  shows "order_lookup self oid em = order_lookup self oid' em' \<and>
         order_cancel self oid em current_time = order_cancel self oid' em' current_time' \<and>
         order_lookup self oid em = None \<and>
         order_cancel self oid em current_time = Inr not_found_result"
proof -
  have "\<not> list_ex (matches_order oid' em') (orders self)"
    using assms(3) by (auto simp: list_ex_iff matches_order_def)
  then have 2: "order_lookup self oid' em' = None"
    by (simp add: order_lookup_def lookup_loop_None)
  have 1: "order_lookup self oid em = None"
    using assms(2) by (simp add: order_lookup_def lookup_loop_None)
  show ?thesis using 1 2 by (simp add: order_cancel_not_found)
qed

theorem lookup_miss_indistinguishable_witness:
  "order_lookup fallback_tools (lit ''A1003'') (lit ''eve@example.com'') =
     order_lookup fallback_tools (lit ''Z9999'') (lit ''mira@example.com'') \<and>
   order_cancel fallback_tools (lit ''A1003'') (lit ''eve@example.com'') None =
     order_cancel fallback_tools (lit ''Z9999'') (lit ''mira@example.com'') None \<and>
   order_lookup fallback_tools (lit ''A1003'') (lit ''eve@example.com'') = None \<and>
   order_cancel fallback_tools (lit ''A1003'') (lit ''eve@example.com'') None = Inr not_found_result"
proof -
  have 1: "list_ex (\<lambda>ord. order_id ord = lit ''A1003'' \<and> email ord \<noteq> lit ''eve@example.com'')
             (orders fallback_tools)"
    by (simp add: fallback_tools_def fallback_orders_def lit_def)
  have 2: "\<not> list_ex (matches_order (lit ''A1003'') (lit ''eve@example.com'')) (orders fallback_tools)"
    by (simp add: fallback_tools_def fallback_orders_def matches_order_def lit_def)
  have 3: "\<not> list_ex (\<lambda>ord. order_id ord = lit ''Z9999'') (orders fallback_tools)"
    by (simp add: fallback_tools_def fallback_orders_def lit_def)
  show ?thesis by (rule lookup_miss_indistinguishable [OF 1 2 3])
qed

section \<open>Product search\<close>











section \<open>Digits and the delivery estimate\<close>

text \<open>
  Claim C10 says that \<open>eta\<close> returns one of the three estimates for every input and never
  raises. The code keeps the characters \<open>str.isdigit\<close> accepts and hands them to \<open>int\<close>,
  which rejects the superscript digits among them: on the one-character text U+00B2 it raises
  \<open>ValueError\<close>.
\<close>

theorem eta_superscript_raises: "eta [178] = Inl ValueError"
  by (simp add: eta_def isdigit_def is_decimal_def ljust_def py_int_def)

lemma py_int_decimal:
  "t \<noteq> [] \<Longrightarrow> list_all is_decimal t \<Longrightarrow> \<exists>n. py_int t = Inr n"
  by (simp add: py_int_def)

lemma takeWhile_decimal: "list_all is_decimal (takeWhile is_decimal t)"
  by (induction t) auto

lemma lazy_dot_digits_decimal:
  "lazy_dot_digits t = Some g \<Longrightarrow> g \<noteq> [] \<and> list_all is_decimal g"
  by (induction t) (auto simp: takeWhile_decimal split: if_splits)

lemma price_search_decimal:
  "price_search t = Some g \<Longrightarrow> g \<noteq> [] \<and> list_all is_decimal g"
  by (induction t) (auto simp: price_match_at_def dest: lazy_dot_digits_decimal split: option.splits if_splits)

lemma extract_price_max_returns: "\<exists>n. extract_price_max t = Inr n"
  by (auto simp: extract_price_max_def dest!: price_search_decimal py_int_decimal split: option.splits)

lemma zip_search_decimal:
  "zip_search b t = Some z \<Longrightarrow> length z = 6 \<and> list_all is_decimal z"
  by (induction b t rule: zip_search.induct)
     (auto simp: zip_match_at_def split: option.splits if_splits)

lemma eta_decimal:
  assumes "z \<noteq> []" "list_all is_decimal z"
  shows "eta z = Inr (lit ''3-4 business days'') \<or> eta z = Inr (lit ''2-3 business days'') \<or>
         eta z = Inr (lit ''4-5 business days'')"
proof -
  have f: "filter isdigit z = z"
    using assms(2) by (induction z) (auto simp: isdigit_def)
  have "list_all is_decimal (ljust (take 6 z) 6 48)"
    using assms(2) by (auto simp: ljust_def list_all_iff is_decimal_def dest: in_set_takeD)
  moreover have "ljust (take 6 z) 6 48 \<noteq> []"
    using assms(1) by (simp add: ljust_def)
  ultimately obtain n where "py_int (ljust (take 6 z) 6 48) = Inr n"
    using py_int_decimal by blast
  then show ?thesis using assms(1) f by (simp add: eta_def)
qed

section \<open>The pipeline, intent by intent\<close>

lemma classify_cases:
  "classify text = lit ''product_assist'' \<or> classify text = lit ''order_help'' \<or>
   classify text = lit ''other''"
  by (simp add: classify_eq)

lemma tool_names:
  "lit ''product_search'' \<in> set (plan (lit ''product_assist''))"
  "lit ''order_lookup'' \<notin> set (plan (lit ''product_assist''))"
  "lit ''product_search'' \<notin> set (plan (lit ''order_help''))"
  "lit ''order_lookup'' \<in> set (plan (lit ''order_help''))"
  "plan (lit ''other'') = []"
  by (simp_all add: plan_def lit_def)

lemma routed:
  "tool_selector_node (router_node (initial_state text)) =
     \<lparr>messages = [text], intent = classify text, tools_called = plan (classify text),
      evidence = [], policy_decision = None, final_message = [], trace = JObj []\<rparr>"
proof -
  have r: "router_node (initial_state text) = (initial_state text)\<lparr>intent := classify text\<rparr>"
    by (simp add: classify_def router_node_def Let_def initial_state_def)
  show ?thesis
    unfolding r by (simp add: tool_selector_node_def plan_def initial_state_def)
qed

lemma final_message_set:
  "dict_set (lit ''final_message'') v
     [(lit ''intent'', a), (lit ''tools_called'', b), (lit ''evidence'', c),
      (lit ''policy_decision'', d), (lit ''final_message'', e)] =
     [(lit ''intent'', a), (lit ''tools_called'', b), (lit ''evidence'', c),
      (lit ''policy_decision'', d), (lit ''final_message'', v)]"
  by (simp add: lit_def)

lemma responder_node_eq:
  "responder_node st =
     (case (if intent st = lit ''product_assist''
              then product_reply (products_of (evidence st))
                     (if messages st \<noteq> [] then last (messages st) else [])
            else if intent st = lit ''order_help'' then order_reply (policy_decision st)
            else if intent st = lit ''other'' then Inr (other_reply (policy_decision st))
            else Inr []) of
        Inl e \<Rightarrow> Inl e
      | Inr msg \<Rightarrow>
          Inr (st\<lparr>final_message := msg,
                 trace := trace_object (intent st) (tools_called st)
                   (map evidence_json (evidence st)) (decision_json (policy_decision st)) msg\<rparr>))"
  unfolding responder_node_def Let_def trace_object_def final_message_set ..

lemma products_of_map: "products_of (map Product_item ps) = ps"
  by (induction ps) auto

lemma run_agent_product_assist:
  assumes "classify text = lit ''product_assist''"
  shows "run_agent self text =
     (case search_evidence self text of
        Inl e \<Rightarrow> Inl e
      | Inr ev \<Rightarrow>
          (case product_reply (products_of ev) text of
             Inl e \<Rightarrow> Inl e
           | Inr msg \<Rightarrow>
               Inr (trace_object (lit ''product_assist'') (plan (lit ''product_assist''))
                      (map evidence_json ev) JNull msg, msg)))"
  using assms intent_names_distinct
  by (simp add: run_agent_def routed execute_tools_node_def policy_guard_node_def
      responder_node_eq tool_names split: sum.splits)

lemma run_agent_order_help:
  assumes "classify text = lit ''order_help''"
  shows "run_agent self text =
     (case cancel_decision self text of
        Inl e \<Rightarrow> Inl e
      | Inr d \<Rightarrow>
          (case order_reply d of
             Inl e \<Rightarrow> Inl e
           | Inr msg \<Rightarrow>
               Inr (trace_object (lit ''order_help'') (plan (lit ''order_help''))
                      (map evidence_json (lookup_evidence self text)) (decision_json d) msg, msg)))"
  using assms intent_names_distinct
  by (simp add: run_agent_def routed execute_tools_node_def policy_guard_node_def
      responder_node_eq tool_names split: sum.splits)

lemma run_agent_other:
  assumes "classify text = lit ''other''"
  shows "run_agent self text =
     (let d = (if discount_pattern text
               then Some (Refuse_decision True (lit ''invalid_discount_request'')) else None)
      in Inr (trace_object (lit ''other'') [] [] (decision_json d) (other_reply d), other_reply d))"
proof -
  have o: "lit ''other'' \<noteq> lit ''product_assist''" "lit ''other'' \<noteq> lit ''order_help''"
    using intent_names_distinct by auto
  have d: "discount_pattern text \<longleftrightarrow>
      contains (lit ''discount code'') (lower text) \<and>
      list_ex (\<lambda>word. contains word (lower text))
        [lit ''doesn't exist'', lit ''non-existent'', lit ''fake'']"
    by (simp add: discount_pattern_def mentions_contains)
  show ?thesis
    using assms o
    by (auto simp add: run_agent_def routed execute_tools_node_def policy_guard_node_def
        responder_node_eq tool_names d Let_def simp del: contains.simps)
qed

lemma field_final_message:
  "field (lit ''final_message'') (trace_object i tools ev pd msg) = Some (JStr msg)"
  by (simp add: field_def trace_object_def lit_def)

lemma field_policy_decision:
  "field (lit ''policy_decision'') (trace_object i tools ev pd msg) = Some pd"
  by (simp add: field_def trace_object_def lit_def)

lemma field_evidence:
  "field (lit ''evidence'') (trace_object i tools ev pd msg) = Some (JArr ev)"
  by (simp add: field_def trace_object_def lit_def)

lemma field_intent:
  "field (lit ''intent'') (trace_object i tools ev pd msg) = Some (JStr i)"
  by (simp add: field_def trace_object_def lit_def)

section \<open>The pipeline returns\<close>

lemma product_reply_returns: "\<exists>msg. product_reply prods text = Inr msg"
proof (cases "zip_search False text")
  case None
  then show ?thesis by (simp add: product_reply_def Let_def)
next
  case (Some z)
  then have "length z = 6 \<and> list_all is_decimal z" by (rule zip_search_decimal)
  then have "z \<noteq> []" "list_all is_decimal z" by auto
  then obtain days where "eta z = Inr days" using eta_decimal by blast
  with Some show ?thesis by (simp add: product_reply_def Let_def)
qed

lemma search_evidence_returns: "\<exists>ev. search_evidence self text = Inr ev"
proof -
  obtain n where "extract_price_max (lower text) = Inr n"
    using extract_price_max_returns by blast
  then show ?thesis by (simp add: search_evidence_def Let_def)
qed

lemma order_cancel_returns:
  assumes "readable_times self"
  shows "\<exists>r. order_cancel self oid em None = Inr r"
proof (cases "order_lookup self oid em")
  case None
  then show ?thesis by (simp add: order_cancel_not_found)
next
  case (Some ord)
  then have "ord \<in> set (orders self)"
    using lookup_loop_Some [of "orders self" oid em ord] by (simp add: order_lookup_def)
  then obtain created where c: "created_at ord = Some created"
    using assms by (auto simp: readable_times_def list_all_iff)
  obtain now where n: "reference_time self None = Some now"
    using assms by (auto simp: readable_times_def)
  show ?thesis using order_cancel_found [OF Some c n] by (simp split: if_splits)
qed

lemma cancel_decision_shape:
  assumes "cancel_decision self text = Inr d"
  shows "d = None \<or> (\<exists>allowed rsn msg alts. d = Some (Cancel_decision allowed rsn msg alts))"
  using assms by (auto simp: cancel_decision_def split: option.splits sum.splits if_splits)

lemma cancel_decision_returns:
  assumes "readable_times self"
  shows "\<exists>d. cancel_decision self text = Inr d"
proof (cases "order_search text")
  case None
  then show ?thesis by (simp add: cancel_decision_def)
next
  case (Some oid)
  show ?thesis
  proof (cases "email_search text")
    case None
    with Some show ?thesis by (simp add: cancel_decision_def)
  next
    case em: (Some em)
    obtain r where "order_cancel self oid em None = Inr r"
      using order_cancel_returns [OF assms] by blast
    with Some em show ?thesis by (simp add: cancel_decision_def)
  qed
qed

lemma order_reply_returns:
  assumes "d = None \<or> (\<exists>allowed rsn msg alts. d = Some (Cancel_decision allowed rsn msg alts))"
  shows "\<exists>msg. order_reply d = Inr msg"
  using assms by (auto simp: order_reply_def)

lemma run_agent_returns:
  assumes "readable_times self"
  shows "\<exists>tr reply. run_agent self text = Inr (tr, reply)"
proof -
  consider "classify text = lit ''product_assist''" | "classify text = lit ''order_help''"
    | "classify text = lit ''other''"
    using classify_cases by blast
  then show ?thesis
  proof cases
    case 1
    obtain ev where e: "search_evidence self text = Inr ev"
      using search_evidence_returns by blast
    obtain msg where "product_reply (products_of ev) text = Inr msg"
      using product_reply_returns by blast
    with 1 e show ?thesis by (simp add: run_agent_product_assist)
  next
    case 2
    obtain d where d: "cancel_decision self text = Inr d"
      using cancel_decision_returns [OF assms] by blast
    obtain msg where "order_reply d = Inr msg"
      using order_reply_returns [OF cancel_decision_shape [OF d]] by blast
    with 2 d show ?thesis by (simp add: run_agent_order_help)
  next
    case 3
    then show ?thesis by (simp add: run_agent_other Let_def)
  qed
qed

lemma run_agent_error:
  assumes "run_agent self text = Inl e"
  shows "e = ValueError \<and> classify text = lit ''order_help'' \<and> \<not> readable_times self"
proof -
  have nr: "\<not> readable_times self"
    using assms run_agent_returns [of self "text"] by auto
  consider "classify text = lit ''product_assist''" | "classify text = lit ''order_help''"
    | "classify text = lit ''other''"
    using classify_cases by blast
  then show ?thesis
  proof cases
    case 1
    obtain ev where e: "search_evidence self text = Inr ev"
      using search_evidence_returns by blast
    obtain msg where "product_reply (products_of ev) text = Inr msg"
      using product_reply_returns by blast
    with 1 e assms show ?thesis by (simp add: run_agent_product_assist)
  next
    case 2
    show ?thesis
    proof (cases "cancel_decision self text")
      case (Inl e')
      then have "e' = ValueError"
        by (auto simp: cancel_decision_def order_cancel_def Let_def
            split: option.splits sum.splits if_splits)
      with 2 Inl assms nr show ?thesis by (simp add: run_agent_order_help)
    next
      case (Inr d)
      obtain msg where "order_reply d = Inr msg"
        using order_reply_returns [OF cancel_decision_shape [OF Inr]] by blast
      with 2 Inr assms show ?thesis by (simp add: run_agent_order_help)
    qed
  next
    case 3
    with assms show ?thesis by (simp add: run_agent_other Let_def)
  qed
qed

section \<open>The trace and the reply\<close>

lemmas char_classes = is_decimal_def is_ascii_letter_def is_word_def is_space_def
  is_email_char_def lower_def lower_char_def lit_def

text \<open>
  Claim C2. Whatever the message and the store, when the pipeline emits a trace and a reply,
  the \<open>final_message\<close> field of the trace is the reply, on every branch of every intent.
  (The pipeline emits them whenever the timestamps it reads are readable, lemma
  \<open>run_agent_returns\<close>.)
\<close>

theorem final_message_is_reply:
  assumes "run_agent self text = Inr (tr, reply)"
  shows "field (lit ''final_message'') tr = Some (JStr reply)"
proof -
  consider "classify text = lit ''product_assist''" | "classify text = lit ''order_help''"
    | "classify text = lit ''other''"
    using classify_cases by blast
  then show ?thesis
  proof cases
    case 1
    then show ?thesis
      using assms by (auto simp: run_agent_product_assist field_final_message split: sum.splits)
  next
    case 2
    then show ?thesis
      using assms by (auto simp: run_agent_order_help field_final_message split: sum.splits)
  next
    case 3
    then show ?thesis
      using assms by (auto simp: run_agent_other field_final_message Let_def)
  qed
qed

lemma fallback_readable: "readable_times fallback_tools"
  by (simp add: readable_times_def fallback_tools_def fallback_orders_def reference_time_def
      default_current_time_def utc_def)

lemma classify_examples:
  "classify (lit ''hello'') = lit ''other''"
  "classify (lit ''Can you give me a discount code that doesn't exist?'') = lit ''other''"
  "classify (lit ''cancel my order please'') = lit ''order_help''"
  "classify (lit ''Cancel order A1003 - email mira@example.com.'') = lit ''order_help''"
  "classify (lit ''dress under 10'') = lit ''product_assist''"
  by (simp_all add: classify_eq char_classes)

lemma discount_examples:
  "\<not> discount_pattern (lit ''hello'')"
  "discount_pattern (lit ''Can you give me a discount code that doesn't exist?'')"
  by (simp_all add: discount_pattern_def mentions_contains char_classes)

lemma search_examples:
  "order_search (lit ''cancel my order please'') = None"
  "order_search (lit ''Cancel order A1003 - email mira@example.com.'') = Some (lit ''A1003'')"
  "email_search (lit ''Cancel order A1003 - email mira@example.com.'') = Some (lit ''mira@example.com'')"
  by (simp_all add: order_match_at_def email_match_at_def char_classes)


lemma run_hello:
  "run_agent fallback_tools (lit ''hello'') =
     Inr (trace_object (lit ''other'') [] [] JNull helper_message, helper_message)"
  by (simp add: run_agent_other classify_examples discount_examples other_reply_def)

lemma run_discount:
  "run_agent self (lit ''Can you give me a discount code that doesn't exist?'') =
     Inr (trace_object (lit ''other'') [] []
            (JObj [(lit ''refuse'', JBool True),
                   (lit ''reason'', JStr (lit ''invalid_discount_request''))])
            refusal_message, refusal_message)"
  by (simp add: run_agent_other classify_examples discount_examples other_reply_def)

lemma run_no_identifiers:
  "run_agent fallback_tools (lit ''cancel my order please'') =
     Inr (trace_object (lit ''order_help'') (plan (lit ''order_help'')) [] JNull
            need_identifiers_message, need_identifiers_message)"
  by (simp add: run_agent_order_help classify_examples cancel_decision_def lookup_evidence_def
      search_examples order_reply_def)

lemma lookup_a1003_noon:
  "order_lookup noon_tools (lit ''A1003'') (lit ''mira@example.com'') =
     Some \<lparr>order_id = lit ''A1003'', email = lit ''mira@example.com'',
       created_at = utc 2025 9 7 11 55 0, items = [(lit ''P3'', lit ''L'')]\<rparr>"
  by (simp add: order_lookup_def noon_tools_def fallback_tools_def fallback_orders_def lit_def)

lemma cancel_blocked:
  "\<exists>msg. cancel_decision fallback_tools (lit ''Cancel order A1003 - email mira@example.com.'') =
     Inr (Some (Cancel_decision False (lit ''policy_violation'') msg (Some cancel_alternatives)))"
proof -
  have n: "reference_time fallback_tools None = Some 1757329500000000"
    by (simp add: reference_time_def fallback_tools_def default_current_time_def utc_def
        days_from_civil_def)
  have c: "created_at \<lparr>order_id = lit ''A1003'', email = lit ''mira@example.com'',
       created_at = utc 2025 9 7 11 55 0, items = [(lit ''P3'', lit ''L'')]\<rparr> =
       Some 1757246100000000"
    by (simp add: utc_values)
  have e: "\<not> elapsed_minutes 1757246100000000 1757329500000000 \<le> 60"
    by (simp add: elapsed_minutes_def)
  show ?thesis
    using e by (simp add: cancel_decision_def search_examples order_cancel_found [OF lookup_a1003 c n])
qed

lemma cancel_allowed:
  "\<exists>msg. cancel_decision noon_tools (lit ''Cancel order A1003 - email mira@example.com.'') =
     Inr (Some (Cancel_decision True (lit ''within_policy'') msg None))"
proof -
  have n: "reference_time noon_tools None = Some 1757246400000000"
    by (simp add: reference_time_def noon_tools_def utc_def days_from_civil_def)
  have c: "created_at \<lparr>order_id = lit ''A1003'', email = lit ''mira@example.com'',
       created_at = utc 2025 9 7 11 55 0, items = [(lit ''P3'', lit ''L'')]\<rparr> =
       Some 1757246100000000"
    by (simp add: utc_values)
  have e: "elapsed_minutes 1757246100000000 1757246400000000 \<le> 60"
    by (simp add: elapsed_minutes_def)
  show ?thesis
    using e by (simp add: cancel_decision_def search_examples order_cancel_found [OF lookup_a1003_noon c n])
qed

lemma run_blocked:
  "\<exists>ev msg reply. run_agent fallback_tools (lit ''Cancel order A1003 - email mira@example.com.'') =
     Inr (trace_object (lit ''order_help'') (plan (lit ''order_help'')) ev
            (decision_json (Some (Cancel_decision False (lit ''policy_violation'') msg
               (Some cancel_alternatives)))) reply, reply)"
proof -
  obtain msg where "cancel_decision fallback_tools (lit ''Cancel order A1003 - email mira@example.com.'') =
     Inr (Some (Cancel_decision False (lit ''policy_violation'') msg (Some cancel_alternatives)))"
    using cancel_blocked by blast
  then show ?thesis
    by (simp add: run_agent_order_help classify_examples order_reply_def del: decision_json.simps)
       blast
qed

lemma run_allowed:
  "\<exists>ev msg reply. run_agent noon_tools (lit ''Cancel order A1003 - email mira@example.com.'') =
     Inr (trace_object (lit ''order_help'') (plan (lit ''order_help'')) ev
            (decision_json (Some (Cancel_decision True (lit ''within_policy'') msg None)))
            reply, reply)"
proof -
  obtain msg where "cancel_decision noon_tools (lit ''Cancel order A1003 - email mira@example.com.'') =
     Inr (Some (Cancel_decision True (lit ''within_policy'') msg None))"
    using cancel_allowed by blast
  then show ?thesis
    by (simp add: run_agent_order_help classify_examples order_reply_def del: decision_json.simps)
       blast
qed

lemma price_examples:
  "extract_price_max (lower (lit ''dress under 10'')) = Inr 10"
  "extract_price_max (lower (lit ''dress under 100'')) = Inr 100"
  by (simp_all add: extract_price_max_def price_match_at_def py_int_def char_classes)

lemma search_dress_10: "search_evidence fallback_tools (lit ''dress under 10'') = Inr []"
proof -
  have w: "\<not> list_ex (\<lambda>word. contains word (lower (lit ''dress under 10'')))
             [lit ''wedding'', lit ''midi'']"
    by (simp add: char_classes)
  have p: "product_search fallback_tools [] 10 [] = []"
    by (simp add: product_search_def fallback_tools_def fallback_products_def)
  show ?thesis
    unfolding search_evidence_def Let_def price_examples using w p by simp
qed

lemma search_dress_100:
  "\<exists>p ps. search_evidence fallback_tools (lit ''dress under 100'') = Inr (Product_item p # ps)"
proof -
  have c: "classify (lit ''dress under 100'') = lit ''product_assist''"
    by (simp add: classify_eq char_classes)
  have w: "\<not> list_ex (\<lambda>word. contains word (lower (lit ''dress under 100'')))
             [lit ''wedding'', lit ''midi'']"
    by (simp add: char_classes)
  have p: "\<exists>p ps. product_search fallback_tools [] 100 [] = p # ps"
    by (simp add: product_search_def fallback_tools_def fallback_products_def)
  show ?thesis
    unfolding search_evidence_def Let_def price_examples using w p by auto
qed

lemma run_dress_10:
  "run_agent fallback_tools (lit ''dress under 10'') =
     Inr (trace_object (lit ''product_assist'') (plan (lit ''product_assist'')) [] JNull
            no_products_message, no_products_message)"
  by (simp add: run_agent_product_assist classify_examples search_dress_10 product_reply_def)

lemma run_dress_100:
  "\<exists>e ev reply. run_agent fallback_tools (lit ''dress under 100'') =
     Inr (trace_object (lit ''product_assist'') (plan (lit ''product_assist'')) (e # ev) JNull
            reply, reply)"
proof -
  have c: "classify (lit ''dress under 100'') = lit ''product_assist''"
    by (simp add: classify_eq char_classes)
  obtain p ps where s: "search_evidence fallback_tools (lit ''dress under 100'') = Inr (Product_item p # ps)"
    using search_dress_100 by blast
  obtain msg where "product_reply (products_of (Product_item p # ps)) (lit ''dress under 100'') = Inr msg"
    using product_reply_returns by blast
  with c s show ?thesis by (simp add: run_agent_product_assist) blast
qed

theorem final_message_is_reply_witness:
  "(\<exists>tr. run_agent fallback_tools (lit ''hello'') = Inr (tr, helper_message) \<and>
      field (lit ''final_message'') tr = Some (JStr helper_message)) \<and>
   (\<exists>tr. run_agent fallback_tools (lit ''Can you give me a discount code that doesn't exist?'') =
        Inr (tr, refusal_message) \<and>
      field (lit ''final_message'') tr = Some (JStr refusal_message)) \<and>
   (\<exists>tr. run_agent fallback_tools (lit ''cancel my order please'') =
        Inr (tr, need_identifiers_message) \<and>
      field (lit ''final_message'') tr = Some (JStr need_identifiers_message)) \<and>
   (\<exists>tr reply msg. run_agent fallback_tools (lit ''Cancel order A1003 - email mira@example.com.'') =
        Inr (tr, reply) \<and>
      field (lit ''policy_decision'') tr =
        Some (decision_json (Some (Cancel_decision False (lit ''policy_violation'') msg
                (Some cancel_alternatives)))) \<and>
      field (lit ''final_message'') tr = Some (JStr reply)) \<and>
   (\<exists>tr reply msg. run_agent noon_tools (lit ''Cancel order A1003 - email mira@example.com.'') =
        Inr (tr, reply) \<and>
      field (lit ''policy_decision'') tr =
        Some (decision_json (Some (Cancel_decision True (lit ''within_policy'') msg None))) \<and>
      field (lit ''final_message'') tr = Some (JStr reply)) \<and>
   (\<exists>tr. run_agent fallback_tools (lit ''dress under 10'') = Inr (tr, no_products_message) \<and>
      field (lit ''evidence'') tr = Some (JArr []) \<and>
      field (lit ''final_message'') tr = Some (JStr no_products_message)) \<and>
   (\<exists>tr reply e ev. run_agent fallback_tools (lit ''dress under 100'') = Inr (tr, reply) \<and>
      field (lit ''evidence'') tr = Some (JArr (e # ev)) \<and>
      field (lit ''final_message'') tr = Some (JStr reply))"
proof (intro conjI)
  show "\<exists>tr. run_agent fallback_tools (lit ''hello'') = Inr (tr, helper_message) \<and>
      field (lit ''final_message'') tr = Some (JStr helper_message)"
    using final_message_is_reply [OF run_hello] run_hello by blast
  show "\<exists>tr. run_agent fallback_tools (lit ''Can you give me a discount code that doesn't exist?'') =
        Inr (tr, refusal_message) \<and>
      field (lit ''final_message'') tr = Some (JStr refusal_message)"
    using final_message_is_reply [OF run_discount] run_discount by blast
  show "\<exists>tr. run_agent fallback_tools (lit ''cancel my order please'') =
        Inr (tr, need_identifiers_message) \<and>
      field (lit ''final_message'') tr = Some (JStr need_identifiers_message)"
    using final_message_is_reply [OF run_no_identifiers] run_no_identifiers by blast
  show "\<exists>tr reply msg. run_agent fallback_tools (lit ''Cancel order A1003 - email mira@example.com.'') =
        Inr (tr, reply) \<and>
      field (lit ''policy_decision'') tr =
        Some (decision_json (Some (Cancel_decision False (lit ''policy_violation'') msg
                (Some cancel_alternatives)))) \<and>
      field (lit ''final_message'') tr = Some (JStr reply)"
  proof -
    obtain ev msg reply where r: "run_agent fallback_tools (lit ''Cancel order A1003 - email mira@example.com.'') =
     Inr (trace_object (lit ''order_help'') (plan (lit ''order_help'')) ev
            (decision_json (Some (Cancel_decision False (lit ''policy_violation'') msg
               (Some cancel_alternatives)))) reply, reply)"
      using run_blocked by blast
    show ?thesis
      using final_message_is_reply [OF r] r field_policy_decision by blast
  qed
  show "\<exists>tr reply msg. run_agent noon_tools (lit ''Cancel order A1003 - email mira@example.com.'') =
        Inr (tr, reply) \<and>
      field (lit ''policy_decision'') tr =
        Some (decision_json (Some (Cancel_decision True (lit ''within_policy'') msg None))) \<and>
      field (lit ''final_message'') tr = Some (JStr reply)"
  proof -
    obtain ev msg reply where r: "run_agent noon_tools (lit ''Cancel order A1003 - email mira@example.com.'') =
     Inr (trace_object (lit ''order_help'') (plan (lit ''order_help'')) ev
            (decision_json (Some (Cancel_decision True (lit ''within_policy'') msg None)))
            reply, reply)"
      using run_allowed by blast
    show ?thesis
      using final_message_is_reply [OF r] r field_policy_decision by blast
  qed
  show "\<exists>tr. run_agent fallback_tools (lit ''dress under 10'') = Inr (tr, no_products_message) \<and>
      field (lit ''evidence'') tr = Some (JArr []) \<and>
      field (lit ''final_message'') tr = Some (JStr no_products_message)"
    using final_message_is_reply [OF run_dress_10] run_dress_10 field_evidence by blast
  show "\<exists>tr reply e ev. run_agent fallback_tools (lit ''dress under 100'') = Inr (tr, reply) \<and>
      field (lit ''evidence'') tr = Some (JArr (e # ev)) \<and>
      field (lit ''final_message'') tr = Some (JStr reply)"
  proof -
    obtain e ev reply where r: "run_agent fallback_tools (lit ''dress under 100'') =
     Inr (trace_object (lit ''product_assist'') (plan (lit ''product_assist'')) (e # ev) JNull
            reply, reply)"
      using run_dress_100 by blast
    show ?thesis
      using final_message_is_reply [OF r] r field_evidence by blast
  qed
qed

section \<open>What the searches for the identifiers find\<close>




















section \<open>The trace schema, the guardrail and missing identifiers\<close>

lemma string_array: "is_string_array (JArr (map JStr ts))"
  by (simp add: list_all_iff)

lemma evidence_objects: "list_all is_object (map evidence_json ev)"
proof (induction ev)
  case Nil
  show ?case by simp
next
  case (Cons e ev)
  then show ?case by (cases e) simp_all
qed

lemma trace_schema_object:
  "trace_schema (trace_object i tools ev pd msg) \<longleftrightarrow>
     (i = lit ''product_assist'' \<or> i = lit ''order_help'' \<or> i = lit ''other'') \<and>
     list_all is_object ev \<and> policy_decision_schema pd"
proof -
  have k: "map_of [(lit ''intent'', JStr i), (lit ''tools_called'', JArr (map JStr tools)),
           (lit ''evidence'', JArr ev), (lit ''policy_decision'', pd),
           (lit ''final_message'', JStr msg)] =
        [lit ''final_message'' \<mapsto> JStr msg, lit ''policy_decision'' \<mapsto> pd,
         lit ''evidence'' \<mapsto> JArr ev, lit ''tools_called'' \<mapsto> JArr (map JStr tools),
         lit ''intent'' \<mapsto> JStr i]"
    by simp
  have d: "lit ''intent'' \<noteq> lit ''tools_called''" "lit ''intent'' \<noteq> lit ''evidence''"
    "lit ''intent'' \<noteq> lit ''policy_decision''" "lit ''intent'' \<noteq> lit ''final_message''"
    "lit ''tools_called'' \<noteq> lit ''evidence''" "lit ''tools_called'' \<noteq> lit ''policy_decision''"
    "lit ''tools_called'' \<noteq> lit ''final_message''" "lit ''evidence'' \<noteq> lit ''policy_decision''"
    "lit ''evidence'' \<noteq> lit ''final_message''" "lit ''policy_decision'' \<noteq> lit ''final_message''"
    by (simp_all add: lit_def)
  show ?thesis
    using d
    by (auto simp add: trace_object_def required_def property_ok_def string_array
        simp del: is_string_array.simps)
qed

lemma cancel_decision_valid:
  "policy_decision_schema (decision_json (Some (Cancel_decision allowed rsn msg alts)))"
proof -
  have d: "lit ''cancel_allowed'' \<noteq> lit ''reason''" "lit ''cancel_allowed'' \<noteq> lit ''message''"
    "lit ''cancel_allowed'' \<noteq> lit ''alternatives''" "lit ''reason'' \<noteq> lit ''message''"
    "lit ''reason'' \<noteq> lit ''alternatives''" "lit ''message'' \<noteq> lit ''alternatives''"
    by (simp_all add: lit_def)
  show ?thesis
    using d
    by (cases alts)
       (auto simp add: required_def property_ok_def string_array simp del: is_string_array.simps)
qed

lemma refuse_decision_invalid:
  "\<not> policy_decision_schema (decision_json (Some (Refuse_decision r rsn)))"
proof -
  have "lit ''refuse'' \<noteq> lit ''cancel_allowed''" "lit ''reason'' \<noteq> lit ''cancel_allowed''"
    by (simp_all add: lit_def)
  then show ?thesis by (simp add: required_def)
qed

lemma trace_valid_unless_refusal:
  assumes "run_agent self text = Inr (tr, reply)"
    and "\<not> (classify text = lit ''other'' \<and> discount_pattern text)"
  shows "validate_trace tr = Inr True"
proof -
  consider "classify text = lit ''product_assist''" | "classify text = lit ''order_help''"
    | "classify text = lit ''other''"
    using classify_cases by blast
  then have "trace_schema tr"
  proof cases
    case 1
    then show ?thesis
      using assms(1)
      by (auto simp: run_agent_product_assist trace_schema_object evidence_objects
          split: sum.splits)
  next
    case 2
    show ?thesis
    proof (cases "cancel_decision self text")
      case (Inl e)
      with 2 assms(1) show ?thesis by (simp add: run_agent_order_help)
    next
      case (Inr d)
      have "policy_decision_schema (decision_json d)"
        using cancel_decision_shape [OF Inr] cancel_decision_valid by auto
      with 2 Inr assms(1) show ?thesis
        by (auto simp: run_agent_order_help trace_schema_object evidence_objects
            split: sum.splits)
    qed
  next
    case 3
    with assms(2) have "\<not> discount_pattern text" by simp
    with 3 assms(1) show ?thesis
      by (auto simp: run_agent_other trace_schema_object)
  qed
  then show ?thesis by (simp add: validate_trace_def)
qed

lemma refusal_trace_invalid:
  assumes "classify text = lit ''other''" "discount_pattern text"
  shows "\<exists>tr reply. run_agent self text = Inr (tr, reply) \<and>
           validate_trace tr = Inl ValidationError"
proof -
  let ?d = "Some (Refuse_decision True (lit ''invalid_discount_request''))"
  have r: "run_agent self text =
      Inr (trace_object (lit ''other'') [] [] (decision_json ?d) (other_reply ?d), other_reply ?d)"
    using assms by (simp add: run_agent_other Let_def del: decision_json.simps)
  have "\<not> trace_schema (trace_object (lit ''other'') [] [] (decision_json ?d) (other_reply ?d))"
    unfolding trace_schema_object using refuse_decision_invalid by blast
  then have "validate_trace (trace_object (lit ''other'') [] [] (decision_json ?d) (other_reply ?d)) =
      Inl ValidationError"
    by (simp add: validate_trace_def)
  with r show ?thesis by blast
qed

text \<open>
  Claim C3 says that the trace of every message validates against the trace schema. The
  schema wants \<open>cancel_allowed\<close> in every policy decision that is not null, and the refusal
  decision of the discount guardrail has none: the trace of the guardrail's own test prompt is
  rejected by \<open>validate_trace\<close>. Every other trace validates
  (\<open>trace_valid_unless_refusal\<close>), and \<open>validate_trace\<close> raises exactly when the schema does
  not hold, by its definition.
\<close>

theorem refusal_trace_fails_validation:
  "\<exists>tr reply.
     run_agent fallback_tools (lit ''Can you give me a discount code that doesn't exist?'') =
       Inr (tr, reply) \<and>
     validate_trace tr = Inl ValidationError"
  using refusal_trace_invalid [OF classify_examples(2) discount_examples(2)] .






section \<open>The price ceiling\<close>

lemma py_int_value:
  "t \<noteq> [] \<Longrightarrow> list_all is_decimal t \<Longrightarrow> py_int t = Inr (decimal_value t)"
  by (simp add: py_int_def decimal_value_def)






















section \<open>The delivery estimate on decimal digits, and the validator\<close>

text \<open>
  Where the input has none of the three superscript digits, \<open>eta\<close> returns the estimate that
  the first six decimal digits, padded with zeros, select.
\<close>

lemma eta_by_value:
  assumes "list_all (\<lambda>c. c \<noteq> 178 \<and> c \<noteq> 179 \<and> c \<noteq> 185) z"
  shows "eta z =
     Inr (if filter is_decimal z = [] then lit ''3-4 business days''
          else if decimal_value (ljust (take 6 (filter is_decimal z)) 6 48) < 400000
            then lit ''3-4 business days''
          else if decimal_value (ljust (take 6 (filter is_decimal z)) 6 48) < 600000
            then lit ''2-3 business days''
          else lit ''4-5 business days'')"
proof -
  have f: "filter isdigit z = filter is_decimal z"
    using assms by (intro filter_cong) (auto simp: isdigit_def list_all_iff)
  show ?thesis
  proof (cases "filter is_decimal z = []")
    case True
    then show ?thesis by (simp add: eta_def f)
  next
    case False
    let ?d = "ljust (take 6 (filter is_decimal z)) 6 48"
    have "list_all is_decimal (filter is_decimal z)" by (simp add: list_all_iff)
    then have "list_all is_decimal ?d"
      by (auto simp: ljust_def list_all_iff is_decimal_def dest: in_set_takeD)
    moreover have "?d \<noteq> []" using False by (simp add: ljust_def)
    ultimately have "py_int ?d = Inr (decimal_value ?d)" by (intro py_int_value)
    then show ?thesis using False by (simp add: eta_def f)
  qed
qed

lemma eta_examples:
  "eta (lit ''560001'') = Inr (lit ''2-3 business days'')"
  "eta (lit ''11'') = Inr (lit ''3-4 business days'')"
  "eta (lit ''zip 700 001'') = Inr (lit ''4-5 business days'')"
  "eta [] = Inr (lit ''3-4 business days'')"
  "eta (lit ''5600'' @ [179] @ lit ''1'') = Inl ValueError"
  by (simp_all add: eta_def isdigit_def is_decimal_def ljust_def py_int_def lit_def eval_nat_numeral)

lemma validate_trace_iff:
  "validate_trace tr = Inr True \<longleftrightarrow> trace_schema tr"
  "validate_trace tr = Inl ValidationError \<longleftrightarrow> \<not> trace_schema tr"
  by (simp_all add: validate_trace_def)

end
